theory Spec2Isabelle
  imports Complex_Main
begin

section \<open>Python values and exceptions\<close>

text \<open>
  The script \<^verbatim>\<open>transfer.py\<close> is a straight-line module: it parses its arguments,
  restores or builds a network, registers forward hooks on the batch-normalisation
  layers, runs the training loop and renders a plot. The Python floats that the
  collaborators return (accuracies, the task loss) are modelled as exact reals. A
  4-dimensional tensor of shape (batch, channel, height, width) is stored by channel, as
  a nested list, assumed rectangular: \<open>t ! c ! n ! h ! w\<close> is its entry \<open>(n, c, h, w)\<close>.
  The Python values that the script passes around where their run-time type decides
  what happens are kept apart by \<open>pyval\<close>.
\<close>

datatype error =
    NameError string
  | AttributeError
  | TypeError
  | IndexError
  | KeyError
  | RuntimeError
  | ZeroDivisionError
  | FileNotFoundError

type_synonym tensor4 = "real list list list list"

text \<open>
  What a zero-dimensional tensor computed from a mean holds: a number, or \<open>nan\<close> when the
  mean was taken over no element.
\<close>

datatype float0 = Finite real | NotANumber

text \<open>
  \<open>PList\<close> is the only list the script builds from tensors, the list of zero-dimensional
  tensors of \<^verbatim>\<open>get_bn_loss\<close>.
\<close>

datatype pyval =
    PNone
  | PTensor tensor4
  | PScalar real
  | PTuple "pyval list"
  | PList "float0 list"

subsection \<open>Tensor operations used by the penalty (line 105)\<close>

text \<open>
  \<^verbatim>\<open>input.mean(dim=[0, 2, 3])\<close>: one mean per channel, over the batch and both spatial
  dimensions; the mean of no element is \<open>nan\<close>.
\<close>

definition mean_dims_023 :: "tensor4 \<Rightarrow> float0 list" where
  "mean_dims_023 t =
     map (\<lambda>channel. let vs = concat (concat channel)
                    in if vs = [] then NotANumber
                       else Finite (sum_list vs / real (length vs)))
         t"

fun sub0 :: "real \<Rightarrow> float0 \<Rightarrow> float0" where
  "sub0 x (Finite y) = Finite (x - y)"
| "sub0 x NotANumber = NotANumber"

text \<open>
  \<^verbatim>\<open>bn.running_mean - mean\<close> on two one-dimensional tensors: equal sizes, or one of
  them of size one (broadcast); anything else is a run-time error of the tensor library.
\<close>

definition tensor_sub :: "real list \<Rightarrow> float0 list \<Rightarrow> error + float0 list" where
  "tensor_sub xs ys =
     (if length xs = length ys then Inr (map2 sub0 xs ys)
      else if length xs = 1 then Inr (map (\<lambda>y. sub0 (hd xs) y) ys)
      else if length ys = 1 then Inr (map (\<lambda>x. sub0 x (hd ys)) xs)
      else Inl RuntimeError)"

text \<open>\<^verbatim>\<open>(d ** 2).sum()\<close>: \<open>nan\<close> as soon as one entry is.\<close>

fun square_sum :: "float0 list \<Rightarrow> float0" where
  "square_sum [] = Finite 0"
| "square_sum (Finite x # ds) =
     (case square_sum ds of Finite y \<Rightarrow> Finite (x ^ 2 + y) | NotANumber \<Rightarrow> NotANumber)"
| "square_sum (NotANumber # ds) = NotANumber"

text \<open>
  One element of the list comprehension of \<^verbatim>\<open>get_bn_loss\<close>:
  \<^verbatim>\<open>((bn.running_mean - input.mean(dim=[0, 2, 3])) ** 2).sum()\<close>.
  Only a tensor has a \<^verbatim>\<open>mean\<close> method; a zero-dimensional tensor has no dimension 2.
\<close>

fun layer_penalty :: "real list \<Rightarrow> pyval \<Rightarrow> error + float0" where
  "layer_penalty running_mean (PTensor t) =
     (case tensor_sub running_mean (mean_dims_023 t) of
        Inl e \<Rightarrow> Inl e
      | Inr d \<Rightarrow> Inr (square_sum d))"
| "layer_penalty running_mean (PScalar x) = Inl IndexError"
| "layer_penalty running_mean PNone = Inl AttributeError"
| "layer_penalty running_mean (PTuple xs) = Inl AttributeError"
| "layer_penalty running_mean (PList xs) = Inl AttributeError"

fun bn_loss_items :: "(real list \<times> pyval) list \<Rightarrow> error + float0 list" where
  "bn_loss_items [] = Inr []"
| "bn_loss_items ((running_mean, input) # rest) =
     (case layer_penalty running_mean input of
        Inl e \<Rightarrow> Inl e
      | Inr p \<Rightarrow>
          (case bn_loss_items rest of
             Inl e \<Rightarrow> Inl e
           | Inr ps \<Rightarrow> Inr (p # ps)))"

text \<open>
  \<^verbatim>\<open>get_bn_loss\<close> (lines 103-107) returns the list built by the comprehension over
  \<^verbatim>\<open>zip(bn_layers, layer_activations)\<close>; \<open>bn_layers\<close> is given by the running mean of
  each layer.
\<close>

definition get_bn_loss :: "real list list \<Rightarrow> pyval list \<Rightarrow> error + pyval" where
  "get_bn_loss bn_layers layer_activations =
     (case bn_loss_items (zip bn_layers layer_activations) of
        Inl e \<Rightarrow> Inl e
      | Inr ps \<Rightarrow> Inr (PList ps))"

text \<open>\<^verbatim>\<open>v.item()\<close>: defined on tensors with exactly one element.\<close>

fun py_item :: "pyval \<Rightarrow> error + real" where
  "py_item (PScalar x) = Inr x"
| "py_item (PTensor t) =
     (case concat (concat (concat t)) of [x] \<Rightarrow> Inr x | _ \<Rightarrow> Inl RuntimeError)"
| "py_item PNone = Inl AttributeError"
| "py_item (PTuple xs) = Inl AttributeError"
| "py_item (PList xs) = Inl AttributeError"

text \<open>\<^verbatim>\<open>loss_crit + other\<close> where \<open>loss_crit\<close> is a zero-dimensional tensor.\<close>

fun tensor_add :: "real \<Rightarrow> pyval \<Rightarrow> error + pyval" where
  "tensor_add c (PScalar x) = Inr (PScalar (c + x))"
| "tensor_add c (PTensor t) = Inr (PTensor (map (map (map (map (\<lambda>x. c + x)))) t))"
| "tensor_add c PNone = Inl TypeError"
| "tensor_add c (PTuple xs) = Inl TypeError"
| "tensor_add c (PList xs) = Inl TypeError"

text \<open>
  \<^verbatim>\<open>loss.backward()\<close>: a method of tensors, defined for a loss of exactly one element.
\<close>

fun backward :: "pyval \<Rightarrow> error option" where
  "backward (PScalar x) = None"
| "backward (PTensor t) =
     (case concat (concat (concat t)) of [x] \<Rightarrow> None | _ \<Rightarrow> Some RuntimeError)"
| "backward PNone = Some AttributeError"
| "backward (PTuple xs) = Some AttributeError"
| "backward (PList xs) = Some AttributeError"

subsection \<open>The forward hooks (lines 90-100)\<close>

text \<open>
  \<^verbatim>\<open>layer_hook_wrapper(idx)\<close> returns a hook that stores its \<open>inputs\<close> argument in slot
  \<open>idx\<close> of \<open>layer_activations\<close>; a list assignment out of range raises.
\<close>

definition hook :: "nat \<Rightarrow> pyval \<Rightarrow> pyval list \<Rightarrow> error + pyval list" where
  "hook idx inputs layer_activations =
     (if idx < length layer_activations then Inr (layer_activations[idx := inputs])
      else Inl IndexError)"

text \<open>
  The framework's side of a forward pass. A pass is described by the calls it makes to
  the layers of \<open>bn_layers\<close>, in order: \<open>(l, t)\<close> says that layer number \<open>l\<close> was applied to
  the tensor \<open>t\<close>. After a module has computed its output, the framework calls each hook
  registered on it as \<^verbatim>\<open>hook(module, args, output)\<close>, where \<open>args\<close> is the tuple of the
  positional arguments of the call: for a normalisation layer the one-element tuple
  \<open>(t,)\<close>. Lines 99-100 register the hook of index \<open>l\<close> on layer \<open>l\<close> for every
  \<open>l < len(bn_layers)\<close>, which is also the length of \<open>layer_activations\<close> (line 90).
\<close>

fun forward_hooks :: "(nat \<times> tensor4) list \<Rightarrow> pyval list \<Rightarrow> error + pyval list" where
  "forward_hooks [] acts = Inr acts"
| "forward_hooks ((l, t) # calls) acts =
     (if l < length acts then
        (case hook l (PTuple [PTensor t]) acts of
           Inl e \<Rightarrow> Inl e
         | Inr acts' \<Rightarrow> forward_hooks calls acts')
      else forward_hooks calls acts)"

subsection \<open>The metrics log\<close>

text \<open>
  \<open>logs\<close> is a \<^verbatim>\<open>defaultdict(list)\<close> (line 69, and pickled as such into every
  checkpoint): reading a missing key inserts it with an empty list. The association list
  keeps the insertion order of the dictionary.
\<close>

type_synonym logs = "(string \<times> real list) list"

fun logs_extend :: "string \<Rightarrow> real list \<Rightarrow> logs \<Rightarrow> logs" where
  "logs_extend k xs [] = [(k, xs)]"
| "logs_extend k xs ((k', ys) # rest) =
     (if k' = k then (k', ys @ xs) # rest else (k', ys) # logs_extend k xs rest)"

definition logs_get :: "string \<Rightarrow> logs \<Rightarrow> real list" where
  "logs_get k lg = (case map_of lg k of None \<Rightarrow> [] | Some ys \<Rightarrow> ys)"

text \<open>Lines 141-142: \<^verbatim>\<open>for m, v in metrics.items(): logs[m].append(v)\<close>.\<close>

fun log_metrics :: "(string \<times> real) list \<Rightarrow> logs \<Rightarrow> logs" where
  "log_metrics [] lg = lg"
| "log_metrics ((m, x) # rest) lg = log_metrics rest (logs_extend m [x] lg)"

section \<open>Arguments, collaborators and the outside world\<close>

text \<open>The namespace returned by \<^verbatim>\<open>parser.parse_args()\<close> (lines 16-34).\<close>

record args =
  dataset_to :: string
  network :: string
  model_from :: string
  ckpt :: string
  cuda :: bool
  num_epochs :: int
  lr :: real
  batch_size :: int
  unsupervised :: bool
  distortion_test :: bool
  resume_training :: bool
  reset :: bool
  save_best :: bool

text \<open>The \<open>choices\<close> of \<^verbatim>\<open>--network\<close> (line 19).\<close>

definition network_choices :: "string list" where
  "network_choices = [''Unet'', ''UnetPlusPlus'']"

text \<open>Line 36: the flag is not consulted.\<close>

definition device :: "args \<Rightarrow> string" where
  "device a = ''cuda''"

text \<open>
  \<^verbatim>\<open>s.replace(old, new)\<close> for a non-empty \<open>old\<close>: every occurrence, left to right,
  without overlap.
\<close>

fun str_replace :: "string \<Rightarrow> string \<Rightarrow> string \<Rightarrow> string" where
  "str_replace old new [] = []"
| "str_replace old new (c # cs) =
     (if old \<noteq> [] \<and> take (length old) (c # cs) = old
      then new @ str_replace old new (drop (length old - 1) cs)
      else c # str_replace old new cs)"

text \<open>Lines 38-39.\<close>

definition resolve_ckpt :: "args \<Rightarrow> args" where
  "resolve_ckpt a =
     (if ckpt a = ''auto''
      then a\<lparr>ckpt := str_replace ''.ckpt'' (''_transfer_'' @ dataset_to a @ ''.ckpt'') (model_from a)\<rparr>
      else a)"

text \<open>Line 41 prints one \<open>key=value\<close> line for each entry of \<^verbatim>\<open>vars(args)\<close>.\<close>

datatype argval = ArgStr string | ArgBool bool | ArgInt int | ArgFloat real

definition vars_items :: "args \<Rightarrow> (string \<times> argval) list" where
  "vars_items a =
     [(''dataset_to'', ArgStr (dataset_to a)),
      (''network'', ArgStr (network a)),
      (''model_from'', ArgStr (model_from a)),
      (''ckpt'', ArgStr (ckpt a)),
      (''cuda'', ArgBool (cuda a)),
      (''num_epochs'', ArgInt (num_epochs a)),
      (''lr'', ArgFloat (lr a)),
      (''batch_size'', ArgInt (batch_size a)),
      (''unsupervised'', ArgBool (unsupervised a)),
      (''distortion_test'', ArgBool (distortion_test a)),
      (''resume_training'', ArgBool (resume_training a)),
      (''reset'', ArgBool (reset a)),
      (''save_best'', ArgBool (save_best a))]"

text \<open>Line 54: \<^verbatim>\<open>args.ckpt.split('.')[0] + '.png'\<close>.\<close>

definition plot_loc :: "args \<Rightarrow> string" where
  "plot_loc a = takeWhile (\<lambda>c. c \<noteq> CHR ''.'') (ckpt a) @ ''.png''"

text \<open>
  The collaborators the script imports, none of which is part of the file: the data
  loader, the network constructors, the optimiser and the helpers of \<^verbatim>\<open>utils\<close>. They
  are parameters of the model. \<open>'m\<close> is the network with all of its state, \<open>'o\<close> the
  optimiser, \<open>'b\<close> a batch \<open>(x, y)\<close> and \<open>'l\<close> the logits.
  \<^item> \<open>train_loader\<close>: the batches of one pass; shuffling changes which samples a batch
    holds, not how many batches there are.
  \<^item> \<open>test_accuracy\<close>: the accuracy on the validation loader, and the calls to the
    normalisation layers made by its forward passes.
  \<^item> \<open>get_bn_layers\<close>: the running mean of each normalisation layer, in layer order.
  \<^item> \<open>forward\<close>: the logits of \<^verbatim>\<open>model(x)\<close>, the calls to the normalisation layers it
    makes, and the network afterwards (a pass in training mode updates running
    statistics).
  \<^item> \<open>distort\<close>: the \<^verbatim>\<open>DistortionModelConv\<close> built from the shape of its first argument,
    applied to the second.
  \<^item> \<open>optim_step\<close>: \<^verbatim>\<open>optimizer.zero_grad(); loss.backward(); optimizer.step()\<close>.
  \<^item> \<open>linspace\<close>: \<^verbatim>\<open>torch.linspace(start, end, steps).tolist()\<close>, the single-precision
    interpolation of the tensor library, whose rounding is not modelled.
\<close>

record ('m, 'o, 'b, 'l) collab =
  train_loader :: "'b list"
  test_accuracy :: "'m \<Rightarrow> real \<times> (nat \<times> tensor4) list"
  resnet18 :: "'m"
  resnet34 :: "'m"
  adam :: "'m \<Rightarrow> real \<Rightarrow> 'o"
  num_params :: "'m \<Rightarrow> int"
  get_bn_layers :: "'m \<Rightarrow> real list list"
  to_train :: "'m \<Rightarrow> 'm"
  to_eval :: "'m \<Rightarrow> 'm"
  forward :: "'m \<Rightarrow> 'b \<Rightarrow> 'l \<times> (nat \<times> tensor4) list \<times> 'm"
  distort :: "'b \<Rightarrow> 'b \<Rightarrow> 'b"
  batch_acc :: "'l \<Rightarrow> 'b \<Rightarrow> real"
  loss_fn :: "'l \<Rightarrow> 'b \<Rightarrow> real"
  optim_step :: "'m \<Rightarrow> 'o \<Rightarrow> 'b \<Rightarrow> pyval \<Rightarrow> 'm \<times> 'o"
  linspace :: "real \<Rightarrow> real \<Rightarrow> nat \<Rightarrow> real list"

text \<open>The bundle written by \<^verbatim>\<open>torch.save\<close> (lines 163-164).\<close>

record ('m, 'o) checkpoint =
  ck_model :: 'm
  ck_optimizer :: 'o
  ck_epoch :: int
  ck_acc :: real
  ck_logs :: logs

text \<open>
  What a run does to the outside: the lines it prints, the device placements it asks
  for, the plots it renders and the bundles it writes, in order.
\<close>

datatype ('m, 'o) event =
    PrintArgs "(string \<times> argval) list"
  | TorchLoad string string
  | PrintLoading string int real
  | ModelTo string
  | PrintTraining int
  | BatchTo int string
  | PrintProgress int int int "(string \<times> real) list"
  | PrettyPlot logs "nat option" "string option"
  | PrintSaving string
  | TorchSave string "('m, 'o) checkpoint"
  | PrintBest string int real

record ('m, 'o) world =
  disk :: "string \<Rightarrow> ('m, 'o) checkpoint option"
  events :: "('m, 'o) event list"

definition emit :: "('m, 'o) event list \<Rightarrow> ('m, 'o) world \<Rightarrow> ('m, 'o) world" where
  "emit evs w = w\<lparr>events := events w @ evs\<rparr>"

fun is_step :: "('m, 'o) event \<Rightarrow> bool" where
  "is_step (BatchTo step dev) = True"
| "is_step ev = False"

fun is_save :: "('m, 'o) event \<Rightarrow> bool" where
  "is_save (TorchSave path sd) = True"
| "is_save ev = False"

fun is_report :: "('m, 'o) event \<Rightarrow> bool" where
  "is_report (PrintBest path ep acc) = True"
| "is_report ev = False"

fun is_final_plot :: "('m, 'o) event \<Rightarrow> bool" where
  "is_final_plot (PrettyPlot lg None None) = True"
| "is_final_plot ev = False"

text \<open>The same world with \<open>evs\<close> put in front of what it has recorded.\<close>

definition behind :: "('m, 'o) event list \<Rightarrow> ('m, 'o) world \<Rightarrow> ('m, 'o) world" where
  "behind evs w = w\<lparr>events := evs @ events w\<rparr>"

text \<open>What the training loop (lines 117-164) can do to the outside.\<close>

fun loop_event :: "('m, 'o) event \<Rightarrow> bool" where
  "loop_event (BatchTo step dev) = True"
| "loop_event (PrintProgress epoch last_epoch step metrics) = True"
| "loop_event (PrettyPlot lg (Some n) (Some loc)) = True"
| "loop_event (PrintSaving path) = True"
| "loop_event (TorchSave path sd) = True"
| "loop_event ev = False"

text \<open>The module-level variables once line 110 has run.\<close>

record ('m, 'o, 'b) vars =
  model :: 'm
  optimizer :: 'o
  init_epoch :: int
  best_acc :: real
  logs :: logs
  valid_acc :: real
  layer_activations :: "pyval list"
  distortion :: "'b option"

section \<open>The script\<close>

subsection \<open>Start-up (lines 58-110)\<close>

text \<open>
  Lines 71-74: two independent \<open>if\<close> statements, neither with an \<open>else\<close>. \<open>None\<close> says
  that the name \<open>model\<close> is still unbound after them.
\<close>

definition select_network :: "('m, 'o, 'b, 'l) collab \<Rightarrow> args \<Rightarrow> 'm option" where
  "select_network col a =
     (let m0 = None;
          m1 = (if network a = ''resnet18'' then Some (resnet18 col) else m0);
          m2 = (if network a = ''resnet34'' then Some (resnet34 col) else m1)
      in m2)"

text \<open>
  Lines 80-110, common to both branches: the first validation accuracy (the hooks are
  not registered yet), one empty slot per normalisation layer, no distortion.
\<close>

definition init_vars ::
  "('m, 'o, 'b, 'l) collab \<Rightarrow> 'm \<Rightarrow> 'o \<Rightarrow> int \<Rightarrow> logs \<Rightarrow> real \<Rightarrow> ('m, 'o, 'b) vars" where
  "init_vars col m opt ep lg acc =
     \<lparr>model = m, optimizer = opt, init_epoch = ep, best_acc = acc, logs = lg,
      valid_acc = fst (test_accuracy col m),
      layer_activations = replicate (length (get_bn_layers col m)) PNone,
      distortion = None\<rparr>"

text \<open>Lines 67-77; line 75 reads the name \<open>model\<close>.\<close>

definition fresh_start ::
  "('m, 'o, 'b, 'l) collab \<Rightarrow> args \<Rightarrow> ('m, 'o) world
     \<Rightarrow> (error + ('m, 'o, 'b) vars) \<times> ('m, 'o) world" where
  "fresh_start col a w =
     (case select_network col a of
        None \<Rightarrow> (Inl (NameError ''model''), w)
      | Some m \<Rightarrow>
          (Inr (init_vars col m (adam col m (lr a)) 0 [] 0), emit [ModelTo (device a)] w))"

text \<open>Line 58: \<^verbatim>\<open>if os.path.exists(args.ckpt) and not args.reset\<close>.\<close>

definition startup ::
  "('m, 'o, 'b, 'l) collab \<Rightarrow> args \<Rightarrow> ('m, 'o) world
     \<Rightarrow> (error + ('m, 'o, 'b) vars) \<times> ('m, 'o) world" where
  "startup col a w =
     (case disk w (ckpt a) of
        None \<Rightarrow> fresh_start col a w
      | Some sd \<Rightarrow>
          if \<not> reset a then
            (Inr (init_vars col (ck_model sd) (ck_optimizer sd) (ck_epoch sd) (ck_logs sd)
                    (ck_acc sd)),
             emit [TorchLoad (ckpt a) (device a),
                   PrintLoading (ckpt a) (ck_epoch sd) (ck_acc sd)] w)
          else fresh_start col a w)"

subsection \<open>One training step (lines 121-150)\<close>

text \<open>
  Lines 133-139: the loss and the metrics dictionary. The entries of the dictionary are
  evaluated in the order written.
\<close>

definition step_loss ::
  "('m, 'o, 'b, 'l) collab \<Rightarrow> args \<Rightarrow> 'l \<Rightarrow> 'b \<Rightarrow> real \<Rightarrow> pyval
     \<Rightarrow> error + pyval \<times> (string \<times> real) list" where
  "step_loss col a logits xy acc loss_bn =
     (if unsupervised a then
        (case py_item loss_bn of
           Inl e \<Rightarrow> Inl e
         | Inr lb \<Rightarrow> Inr (loss_bn, [(''acc'', acc), (''loss_bn'', lb)]))
      else
        (let loss_crit = loss_fn col logits xy in
         case tensor_add loss_crit loss_bn of
           Inl e \<Rightarrow> Inl e
         | Inr loss \<Rightarrow>
             (case py_item loss_bn of
                Inl e \<Rightarrow> Inl e
              | Inr lb \<Rightarrow>
                  Inr (loss, [(''acc'', acc), (''loss_bn'', lb), (''loss_crit'', loss_crit)]))))"

definition train_step ::
  "('m, 'o, 'b, 'l) collab \<Rightarrow> args \<Rightarrow> int \<Rightarrow> int \<times> 'b \<Rightarrow> ('m, 'o, 'b) vars \<Rightarrow> ('m, 'o) world
     \<Rightarrow> (error + ('m, 'o, 'b) vars) \<times> ('m, 'o) world" where
  "train_step col a epoch sb v w =
     (let step = fst sb;
          w1 = emit [BatchTo step (device a)] w;
          (dist, xy) =
            (if distortion_test a then
               (case distortion v of
                  None \<Rightarrow> (Some (snd sb), distort col (snd sb) (snd sb))
                | Some d \<Rightarrow> (Some d, distort col d (snd sb)))
             else (distortion v, snd sb));
          (logits, calls, m1) = forward col (model v) xy
      in case forward_hooks calls (layer_activations v) of
           Inl e \<Rightarrow> (Inl e, w1)
         | Inr acts \<Rightarrow>
             (case get_bn_loss (get_bn_layers col m1) acts of
                Inl e \<Rightarrow> (Inl e, w1)
              | Inr loss_bn \<Rightarrow>
                  (case step_loss col a logits xy (batch_acc col logits xy) loss_bn of
                     Inl e \<Rightarrow> (Inl e, w1)
                   | Inr (loss, metrics) \<Rightarrow>
                       (case backward loss of
                          Some e \<Rightarrow> (Inl e, w1)
                        | None \<Rightarrow>
                            let (m2, opt2) = optim_step col m1 (optimizer v) xy loss;
                                v2 = v\<lparr>model := m2, optimizer := opt2,
                                       logs := log_metrics metrics (logs v),
                                       layer_activations := acts, distortion := dist\<rparr>;
                                n = int (length (train_loader col))
                            in if n = 0 then (Inl ZeroDivisionError, w1)
                               else if step mod n mod 50 = 0 then
                                 (Inr v2,
                                  emit [PrintProgress epoch (init_epoch v + num_epochs a)
                                          (step mod n) metrics] w1)
                               else (Inr v2, w1)))))"

subsection \<open>One epoch (lines 118-164)\<close>

fun batches_loop ::
  "('m, 'o, 'b, 'l) collab \<Rightarrow> args \<Rightarrow> int \<Rightarrow> (int \<times> 'b) list \<Rightarrow> ('m, 'o, 'b) vars
     \<Rightarrow> ('m, 'o) world \<Rightarrow> (error + ('m, 'o, 'b) vars) \<times> ('m, 'o) world" where
  "batches_loop col a epoch [] v w = (Inr v, w)"
| "batches_loop col a epoch (sb # rest) v w =
     (case train_step col a epoch sb v w of
        (Inl e, w') \<Rightarrow> (Inl e, w')
      | (Inr v', w') \<Rightarrow> batches_loop col a epoch rest v' w')"

text \<open>\<^verbatim>\<open>enumerate(xs, start=k)\<close>.\<close>

definition enumerate_from :: "int \<Rightarrow> 'a list \<Rightarrow> (int \<times> 'a) list" where
  "enumerate_from k xs = zip (map (\<lambda>i. k + int i) [0..<length xs]) xs"

text \<open>
  Lines 152-164: validation, the interpolated accuracies, the decision to save. The
  hooks stay registered, so the validation passes write the capture buffer too.
\<close>

definition epoch_end ::
  "('m, 'o, 'b, 'l) collab \<Rightarrow> args \<Rightarrow> int \<Rightarrow> ('m, 'o, 'b) vars \<Rightarrow> ('m, 'o) world
     \<Rightarrow> (error + ('m, 'o, 'b) vars) \<times> ('m, 'o) world" where
  "epoch_end col a epoch v w =
     (let m = to_eval col (model v);
          valid_acc_old = valid_acc v;
          (acc, calls) = test_accuracy col m
      in case forward_hooks calls (layer_activations v) of
           Inl e \<Rightarrow> (Inl e, w)
         | Inr acts \<Rightarrow>
             let n = length (train_loader col);
                 lg = logs_extend ''val_acc'' (linspace col valid_acc_old acc n) (logs v);
                 v1 = v\<lparr>model := m, valid_acc := acc, logs := lg, layer_activations := acts\<rparr>
             in if \<not> save_best a \<or> acc > best_acc v then
                  let sd = \<lparr>ck_model = m, ck_optimizer = optimizer v, ck_epoch = epoch + 1,
                            ck_acc = acc, ck_logs = lg\<rparr>
                  in (Inr (v1\<lparr>best_acc := acc\<rparr>),
                      (emit [PrettyPlot lg (Some n) (Some (plot_loc a)), PrintSaving (ckpt a),
                             TorchSave (ckpt a) sd] w)
                        \<lparr>disk := (disk w)(ckpt a := Some sd)\<rparr>)
                else (Inr v1, w))"

definition run_epoch ::
  "('m, 'o, 'b, 'l) collab \<Rightarrow> args \<Rightarrow> int \<Rightarrow> ('m, 'o, 'b) vars \<Rightarrow> ('m, 'o) world
     \<Rightarrow> (error + ('m, 'o, 'b) vars) \<times> ('m, 'o) world" where
  "run_epoch col a epoch v w =
     (let v0 = v\<lparr>model := to_train col (model v)\<rparr>;
          step_start = epoch * int (length (train_loader col))
      in case batches_loop col a epoch (enumerate_from step_start (train_loader col)) v0 w of
           (Inl e, w') \<Rightarrow> (Inl e, w')
         | (Inr v', w') \<Rightarrow> epoch_end col a epoch v' w')"

text \<open>Line 117: \<^verbatim>\<open>for epoch in range(init_epoch, init_epoch + args.num_epochs)\<close>.\<close>

fun epochs_loop ::
  "('m, 'o, 'b, 'l) collab \<Rightarrow> args \<Rightarrow> int list \<Rightarrow> ('m, 'o, 'b) vars \<Rightarrow> ('m, 'o) world
     \<Rightarrow> (error + ('m, 'o, 'b) vars) \<times> ('m, 'o) world" where
  "epochs_loop col a [] v w = (Inr v, w)"
| "epochs_loop col a (epoch # rest) v w =
     (case run_epoch col a epoch v w of
        (Inl e, w') \<Rightarrow> (Inl e, w')
      | (Inr v', w') \<Rightarrow> epochs_loop col a rest v' w')"

subsection \<open>After the last epoch (lines 166-171)\<close>

text \<open>
  The values that the script subscripts: the bundle read by \<^verbatim>\<open>torch.load\<close> is a
  dictionary with the five keys written at lines 163-164; numbers have no item access;
  the log is a \<^verbatim>\<open>defaultdict\<close> of lists.

  Modelled from the spec: the class of the network object is defined in the module
  \<^verbatim>\<open>models\<close>, which is not among the sources. The spec describes the entry \<open>model\<close> of
  the bundle as the full model object, a parameterised function with trainable weights
  and normalisation sublayers: a module of the framework, which is called, not
  subscripted, and defines no item access.
\<close>

datatype ('m, 'o) pyobj =
    Bundle "('m, 'o) checkpoint"
  | ModelObj 'm
  | OptimObj 'o
  | IntObj int
  | FloatObj real
  | LogsObj logs
  | FloatsObj "real list"

fun subscript :: "('m, 'o) pyobj \<Rightarrow> string \<Rightarrow> error + ('m, 'o) pyobj" where
  "subscript (Bundle sd) k =
     (if k = ''model'' then Inr (ModelObj (ck_model sd))
      else if k = ''optimizer'' then Inr (OptimObj (ck_optimizer sd))
      else if k = ''epoch'' then Inr (IntObj (ck_epoch sd))
      else if k = ''acc'' then Inr (FloatObj (ck_acc sd))
      else if k = ''logs'' then Inr (LogsObj (ck_logs sd))
      else Inl KeyError)"
| "subscript (LogsObj lg) k = Inr (FloatsObj (logs_get k lg))"
| "subscript (ModelObj m) k = Inl TypeError"
| "subscript (OptimObj opt) k = Inl TypeError"
| "subscript (IntObj i) k = Inl TypeError"
| "subscript (FloatObj x) k = Inl TypeError"
| "subscript (FloatsObj xs) k = Inl TypeError"

text \<open>
  Lines 166-168. The name \<open>state_dict\<close> is bound to \<^verbatim>\<open>torch.load(...)['model']\<close>, and
  the line printed formats \<^verbatim>\<open>state_dict['epoch']\<close> and \<open>best_acc\<close>.
\<close>

definition report_best ::
  "args \<Rightarrow> ('m, 'o, 'b) vars \<Rightarrow> ('m, 'o) world \<Rightarrow> (error + unit) \<times> ('m, 'o) world" where
  "report_best a v w =
     (if save_best a then
        (case disk w (ckpt a) of
           None \<Rightarrow> (Inl FileNotFoundError, w)
         | Some sd \<Rightarrow>
             let w1 = emit [TorchLoad (ckpt a) (device a)] w in
             (case subscript (Bundle sd) ''model'' of
                Inl e \<Rightarrow> (Inl e, w1)
              | Inr state_dict \<Rightarrow>
                  (case subscript state_dict ''epoch'' of
                     Inr (IntObj ep) \<Rightarrow> (Inr (), emit [PrintBest (ckpt a) ep (best_acc v)] w1)
                   | Inr other \<Rightarrow> (Inl TypeError, w1)
                   | Inl e \<Rightarrow> (Inl e, w1))))
      else (Inr (), w))"

text \<open>Line 171: \<^verbatim>\<open>pretty_plot(logs, smoothing=50)\<close>.\<close>

definition final_plot :: "('m, 'o, 'b) vars \<Rightarrow> ('m, 'o) world \<Rightarrow> ('m, 'o) world" where
  "final_plot v w = emit [PrettyPlot (logs v) None None] w"

subsection \<open>The whole run\<close>

text \<open>
  Everything after line 41. The result is the exception that ended the run, if any, and
  the outside world at that point.
\<close>

definition body ::
  "('m, 'o, 'b, 'l) collab \<Rightarrow> args \<Rightarrow> ('m, 'o) world \<Rightarrow> error option \<times> ('m, 'o) world" where
  "body col a w =
     (case startup col a w of
        (Inl e, w1) \<Rightarrow> (Some e, w1)
      | (Inr v, w1) \<Rightarrow>
          if disk w1 (ckpt a) = None \<or> resume_training a then
            (case epochs_loop col a [init_epoch v..init_epoch v + num_epochs a - 1] v
                    (emit [PrintTraining (num_params col (model v))] w1) of
               (Inl e, w2) \<Rightarrow> (Some e, w2)
             | (Inr v', w2) \<Rightarrow>
                 (case report_best a v' w2 of
                    (Inl e, w3) \<Rightarrow> (Some e, w3)
                  | (Inr u, w3) \<Rightarrow> (None, final_plot v' w3)))
          else (None, final_plot v w1))"

definition main ::
  "('m, 'o, 'b, 'l) collab \<Rightarrow> args \<Rightarrow> ('m, 'o) world \<Rightarrow> error option \<times> ('m, 'o) world" where
  "main col a0 w =
     (let a = resolve_ckpt a0
      in body col a (emit [PrintArgs (vars_items a)] w))"

section \<open>Example inputs\<close>

text \<open>
  Concrete values at which the theorems below are instantiated: a network with one
  normalisation layer, a loader of \<open>n\<close> batches, the parser's defaults, and a disk that
  holds the bundle of one earlier epoch of two steps under the default path. The
  accuracies of the example are binary fractions, on which the interpolation is exact.
\<close>

definition example_collab :: "nat \<Rightarrow> (nat, nat, nat, nat) collab" where
  "example_collab n =
     \<lparr>train_loader = replicate n 0,
      test_accuracy = (\<lambda>m. (3 / 4, [(0, [[[[2]]]])])),
      resnet18 = 0,
      resnet34 = 0,
      adam = (\<lambda>m r. 0),
      num_params = (\<lambda>m. 1000),
      get_bn_layers = (\<lambda>m. [[0]]),
      to_train = (\<lambda>m. m),
      to_eval = (\<lambda>m. m),
      forward = (\<lambda>m b. (0, [(0, [[[[1]]]])], m)),
      distort = (\<lambda>d b. b),
      batch_acc = (\<lambda>l b. 1 / 2),
      loss_fn = (\<lambda>l b. 1),
      optim_step = (\<lambda>m opt b loss. (Suc m, Suc opt)),
      linspace = (\<lambda>x y k. map (\<lambda>i. x + real i * ((y - x) / real (k - 1))) [0..<k])\<rparr>"

definition default_args :: args where
  "default_args =
     \<lparr>dataset_to = ''CIFAR10'', network = ''Unet'', model_from = ''models/model.ckpt'',
      ckpt = ''auto'', cuda = False, num_epochs = 3, lr = 1 / 100, batch_size = 64,
      unsupervised = False, distortion_test = False, resume_training = False,
      reset = False, save_best = False\<rparr>"

definition resume_args :: args where
  "resume_args = default_args\<lparr>resume_training := True\<rparr>"

definition saved_bundle :: "(nat, nat) checkpoint" where
  "saved_bundle =
     \<lparr>ck_model = 0, ck_optimizer = 0, ck_epoch = 1, ck_acc = 1 / 2,
      ck_logs = [(''acc'', [1 / 4, 1 / 2]), (''loss_bn'', [2, 1]), (''loss_crit'', [3, 2]),
                 (''val_acc'', [0, 1 / 2])]\<rparr>"

definition empty_world :: "(nat, nat) world" where
  "empty_world = \<lparr>disk = (\<lambda>p. None), events = []\<rparr>"

definition resumed_world :: "(nat, nat) world" where
  "resumed_world =
     \<lparr>disk = (\<lambda>p. if p = ''models/model_transfer_CIFAR10.ckpt'' then Some saved_bundle
                   else None),
      events = []\<rparr>"

text \<open>The variables after the bundle has been restored, with a loader of two batches.\<close>

definition resumed_vars :: "(nat, nat, nat) vars" where
  "resumed_vars =
     (init_vars (example_collab 2) 0 0 1 (ck_logs saved_bundle) (1 / 2))\<lparr>valid_acc := 1 / 2\<rparr>"

text \<open>
  A disk that holds, under the default path, a bundle written before any transfer epoch
  (epoch count 0, empty log), and the variables after it has been restored.
\<close>

definition initial_bundle :: "(nat, nat) checkpoint" where
  "initial_bundle =
     \<lparr>ck_model = 0, ck_optimizer = 0, ck_epoch = 0, ck_acc = 0, ck_logs = []\<rparr>"

definition initial_world :: "(nat, nat) world" where
  "initial_world =
     \<lparr>disk = (\<lambda>p. if p = ''models/model_transfer_CIFAR10.ckpt'' then Some initial_bundle
                   else None),
      events = []\<rparr>"

definition initial_vars :: "(nat, nat, nat) vars" where
  "initial_vars = init_vars (example_collab 2) 0 0 0 [] 0"

section \<open>Properties\<close>

subsection \<open>The training step\<close>

lemma get_bn_loss_is_list:
  "get_bn_loss bn_layers acts = Inr loss_bn \<Longrightarrow> \<exists>ps. loss_bn = PList ps"
  by (auto simp: get_bn_loss_def split: sum.splits)

lemma step_loss_after_bn_loss:
  assumes "get_bn_loss bn_layers acts = Inr loss_bn"
  shows "\<exists>e. step_loss col a logits xy acc loss_bn = Inl e"
proof -
  obtain ps where "loss_bn = PList ps" using get_bn_loss_is_list[OF assms] by blast
  then show ?thesis by (simp add: step_loss_def)
qed

lemma train_step_raises: "\<exists>e w'. train_step col a epoch sb v w = (Inl e, w')"
proof -
  have "step_loss col a lg xy acc lb \<noteq> Inr r" if "get_bn_loss bl acts = Inr lb"
    for bl acts lb and lg :: 'd and xy acc r
    using step_loss_after_bn_loss[OF that, of col a lg xy acc] by auto
  then show ?thesis
    unfolding train_step_def Let_def
    by (auto split: prod.splits sum.splits option.splits)
qed

lemma batches_loop_completes:
  assumes "batches_loop col a epoch sbs v w = (Inr v', w')"
  shows "sbs = [] \<and> v' = v \<and> w' = w"
proof (cases sbs)
  case Nil
  with assms show ?thesis by simp
next
  case (Cons sb rest)
  obtain e w1 where "train_step col a epoch sb v w = (Inl e, w1)"
    using train_step_raises by blast
  with assms Cons show ?thesis by simp
qed

text \<open>
  C1 (what the code does). The claim says that the penalty used in the loss is the sum
  of the per-layer scalars, and that the loss is that sum alone (unsupervised) or
  cross-entropy plus that sum. In the code \<^verbatim>\<open>get_bn_loss\<close> returns the list itself and
  nothing sums it: whenever it returns, its result is a Python list, \<^verbatim>\<open>loss_bn.item()\<close>
  raises \<open>AttributeError\<close> and \<^verbatim>\<open>loss_crit + loss_bn\<close> raises \<open>TypeError\<close>; so every
  training step ends in an exception and no loss is ever formed.
\<close>

theorem bn_loss_is_never_summed:
  "(get_bn_loss bn_layers acts = Inr loss_bn \<longrightarrow>
      (\<exists>ps. loss_bn = PList ps) \<and> py_item loss_bn = Inl AttributeError \<and>
      tensor_add loss_crit loss_bn = Inl TypeError) \<and>
   (\<exists>e w'. train_step col a epoch sb v w = (Inl e, w'))"
  using train_step_raises[of col a epoch sb v w]
  by (auto dest!: get_bn_loss_is_list)

theorem bn_loss_is_never_summed_witness:
  "get_bn_loss [] [] = Inr (PList []) \<and>
   py_item (PList []) = Inl AttributeError \<and>
   tensor_add 1 (PList []) = Inl TypeError \<and>
   fst (train_step
          ((example_collab 2)\<lparr>get_bn_layers := (\<lambda>m. []), forward := (\<lambda>m b. (0, [], m))\<rparr>)
          default_args 1 (2, 0) (resumed_vars\<lparr>layer_activations := []\<rparr>) resumed_world)
     = Inl TypeError \<and>
   fst (train_step
          ((example_collab 2)\<lparr>get_bn_layers := (\<lambda>m. []), forward := (\<lambda>m b. (0, [], m))\<rparr>)
          (default_args\<lparr>unsupervised := True\<rparr>) 1 (2, 0)
          (resumed_vars\<lparr>layer_activations := []\<rparr>) resumed_world)
     = Inl AttributeError"
  using bn_loss_is_never_summed[of "[]" "[]" "PList []" 1
          "(example_collab 2)\<lparr>get_bn_layers := (\<lambda>m. []), forward := (\<lambda>m b. (0, [], m))\<rparr>"
          default_args 1 "(2, 0)" "resumed_vars\<lparr>layer_activations := []\<rparr>" resumed_world]
  by (simp add: train_step_def step_loss_def example_collab_def default_args_def
        resumed_vars_def init_vars_def get_bn_loss_def Let_def)

subsection \<open>The capture buffer\<close>

text \<open>
  A forward pass never raises in a hook, keeps the number of slots, and leaves in slot
  \<open>l\<close> either the argument tuple of a call to layer \<open>l\<close> or, if the pass did not call that
  layer, what the slot held before.
\<close>

lemma forward_hooks_slots:
  "\<exists>acts'. forward_hooks calls acts = Inr acts' \<and> length acts' = length acts \<and>
     (\<forall>l < length acts.
        (\<exists>t. (l, t) \<in> set calls \<and> acts' ! l = PTuple [PTensor t]) \<or>
        (l \<notin> fst ` set calls \<and> acts' ! l = acts ! l))"
proof (induction calls arbitrary: acts)
  case Nil
  then show ?case by simp
next
  case (Cons c calls)
  obtain l0 t0 where c: "c = (l0, t0)" by (cases c)
  show ?case
  proof (cases "l0 < length acts")
    case True
    let ?acts1 = "acts[l0 := PTuple [PTensor t0]]"
    from Cons.IH[of ?acts1] obtain acts' where
      r: "forward_hooks calls ?acts1 = Inr acts'" and
      len: "length acts' = length ?acts1" and
      sl: "\<forall>l < length ?acts1.
        (\<exists>t. (l, t) \<in> set calls \<and> acts' ! l = PTuple [PTensor t]) \<or>
        (l \<notin> fst ` set calls \<and> acts' ! l = ?acts1 ! l)"
      by blast
    have "forward_hooks (c # calls) acts = Inr acts'"
      using True r by (simp add: c hook_def)
    moreover have "length acts' = length acts" using len by simp
    moreover have "(\<exists>t. (l, t) \<in> set (c # calls) \<and> acts' ! l = PTuple [PTensor t]) \<or>
        (l \<notin> fst ` set (c # calls) \<and> acts' ! l = acts ! l)" if "l < length acts" for l
    proof -
      from sl that have "(\<exists>t. (l, t) \<in> set calls \<and> acts' ! l = PTuple [PTensor t]) \<or>
        (l \<notin> fst ` set calls \<and> acts' ! l = ?acts1 ! l)" by simp
      then show ?thesis
      proof
        assume "\<exists>t. (l, t) \<in> set calls \<and> acts' ! l = PTuple [PTensor t]"
        then show ?thesis by auto
      next
        assume h: "l \<notin> fst ` set calls \<and> acts' ! l = ?acts1 ! l"
        show ?thesis
        proof (cases "l = l0")
          case True
          with h that have "acts' ! l = PTuple [PTensor t0]" by simp
          with True c show ?thesis by auto
        next
          case False
          with h that have "acts' ! l = acts ! l" by simp
          with False h c show ?thesis by auto
        qed
      qed
    qed
    ultimately show ?thesis by blast
  next
    case False
    from Cons.IH[of acts] obtain acts' where
      r: "forward_hooks calls acts = Inr acts'" and
      len: "length acts' = length acts" and
      sl: "\<forall>l < length acts.
        (\<exists>t. (l, t) \<in> set calls \<and> acts' ! l = PTuple [PTensor t]) \<or>
        (l \<notin> fst ` set calls \<and> acts' ! l = acts ! l)"
      by blast
    have "forward_hooks (c # calls) acts = Inr acts'"
      using False r by (simp add: c)
    moreover have "(\<exists>t. (l, t) \<in> set (c # calls) \<and> acts' ! l = PTuple [PTensor t]) \<or>
        (l \<notin> fst ` set (c # calls) \<and> acts' ! l = acts ! l)" if "l < length acts" for l
      using sl that False c by auto
    ultimately show ?thesis using len by blast
  qed
qed

lemma forward_hooks_total: "\<exists>acts'. forward_hooks calls acts = Inr acts'"
  using forward_hooks_slots by blast

text \<open>
  C2 (what the code does). The claim says that after a forward pass slot \<open>i\<close> holds the
  input tensor of layer \<open>i\<close> and that the per-layer penalty is the squared difference
  between the running mean and the mean of that input. In the code the hook stores its
  whole \<open>inputs\<close> argument, the tuple of positional arguments: after a pass that called
  layer \<open>l\<close>, slot \<open>l\<close> holds a one-element tuple around a tensor the layer was called
  with, not the tensor, and the penalty of that slot is an \<open>AttributeError\<close> (a tuple has
  no \<open>mean\<close>).
\<close>

theorem hook_stores_argument_tuple:
  assumes "forward_hooks calls acts = Inr acts'" and "l < length acts" and "(l, t) \<in> set calls"
  shows "(\<exists>t'. (l, t') \<in> set calls \<and> acts' ! l = PTuple [PTensor t']) \<and>
         acts' ! l \<noteq> PTensor t \<and>
         layer_penalty running_mean (acts' ! l) = Inl AttributeError"
proof -
  from forward_hooks_slots[of calls acts] assms(1) have
    "\<forall>l < length acts.
        (\<exists>t. (l, t) \<in> set calls \<and> acts' ! l = PTuple [PTensor t]) \<or>
        (l \<notin> fst ` set calls \<and> acts' ! l = acts ! l)" by auto
  with assms(2) have "(\<exists>t. (l, t) \<in> set calls \<and> acts' ! l = PTuple [PTensor t]) \<or>
        (l \<notin> fst ` set calls \<and> acts' ! l = acts ! l)" by blast
  moreover have "l \<in> fst ` set calls" using assms(3) by force
  ultimately obtain t' where "(l, t') \<in> set calls" "acts' ! l = PTuple [PTensor t']" by blast
  then show ?thesis by auto
qed

theorem hook_stores_argument_tuple_witness:
  "forward_hooks [(0, [[[[1]]]])] [PNone] = Inr [PTuple [PTensor [[[[1]]]]]] \<and>
   layer_penalty [0] ([PTuple [PTensor [[[[1]]]]]] ! 0) = Inl AttributeError \<and>
   get_bn_loss [[0]] [PTuple [PTensor [[[[1]]]]]] = Inl AttributeError"
  using hook_stores_argument_tuple[of "[(0, [[[[1]]]])]" "[PNone]"
          "[PTuple [PTensor [[[[1]]]]]]" 0 "[[[[1]]]]" "[0]"]
  by (simp add: hook_def get_bn_loss_def)

subsection \<open>Network selection\<close>

text \<open>
  C3. No value that the parser accepts for \<^verbatim>\<open>--network\<close> is one of the two names the
  selection tests; for any value outside \<open>resnet18\<close> and \<open>resnet34\<close> the selection
  (lines 71-74) binds nothing and raises nothing, and the fresh start (no checkpoint,
  or the reset flag) fails only at the next statement, with a \<open>NameError\<close> for \<open>model\<close>.
\<close>

theorem unsupported_network_leaves_model_unbound:
  "set network_choices \<inter> {''resnet18'', ''resnet34''} = {} \<and>
   (network a \<notin> {''resnet18'', ''resnet34''} \<longrightarrow>
      select_network col a = None \<and>
      fresh_start col a w = (Inl (NameError ''model''), w) \<and>
      (disk w (ckpt a) = None \<or> reset a \<longrightarrow>
         startup col a w = (Inl (NameError ''model''), w)))"
  by (auto simp: network_choices_def select_network_def fresh_start_def startup_def
           split: option.splits)

theorem unsupported_network_leaves_model_unbound_witness:
  "network default_args \<in> set network_choices \<and>
   select_network (example_collab 2) default_args = None \<and>
   startup (example_collab 2) default_args empty_world
     = (Inl (NameError ''model''), empty_world)"
  using unsupported_network_leaves_model_unbound[of default_args "example_collab 2" empty_world]
  by (simp add: default_args_def network_choices_def empty_world_def)

subsection \<open>The outside world\<close>

lemmas example_defs = example_collab_def resume_args_def default_args_def resolve_ckpt_def
  resumed_vars_def init_vars_def saved_bundle_def resumed_world_def empty_world_def
  initial_bundle_def initial_world_def initial_vars_def

lemma resolve_ckpt_flags [simp]:
  "resume_training (resolve_ckpt a) = resume_training a"
  "save_best (resolve_ckpt a) = save_best a"
  "reset (resolve_ckpt a) = reset a"
  "network (resolve_ckpt a) = network a"
  by (simp_all add: resolve_ckpt_def)

lemma startup_world:
  assumes "startup col a w = (r, w')"
  shows "disk w' = disk w \<and> filter is_step (events w') = filter is_step (events w) \<and>
         filter is_save (events w') = filter is_save (events w) \<and>
         filter is_report (events w') = filter is_report (events w) \<and>
         filter is_final_plot (events w') = filter is_final_plot (events w)"
  using assms
  by (auto simp: startup_def fresh_start_def emit_def split: option.splits if_splits)

text \<open>
  C4. If the checkpoint file exists and \<^verbatim>\<open>--resume_training\<close> is not given, the run,
  whatever its other flags and however it ends, leaves the disk as it was, begins no
  training step and writes no bundle.
\<close>

theorem existing_checkpoint_without_resume_is_untouched:
  assumes "disk w (ckpt (resolve_ckpt a)) \<noteq> None" and "\<not> resume_training a"
  shows "disk (snd (main col a w)) = disk w \<and>
         filter is_step (events (snd (main col a w))) = filter is_step (events w) \<and>
         filter is_save (events (snd (main col a w))) = filter is_save (events w)"
proof -
  let ?a = "resolve_ckpt a"
  let ?w0 = "emit [PrintArgs (vars_items ?a)] w"
  obtain r w1 where s: "startup col ?a ?w0 = (r, w1)" by (cases "startup col ?a ?w0")
  from startup_world[OF s] have
    d: "disk w1 = disk w" and
    st: "filter is_step (events w1) = filter is_step (events w)" and
    sv: "filter is_save (events w1) = filter is_save (events w)"
    by (simp_all add: emit_def)
  show ?thesis
  proof (cases r)
    case (Inl e)
    then show ?thesis using s d st sv by (simp add: main_def body_def Let_def)
  next
    case (Inr v)
    then show ?thesis using s d st sv assms
      by (auto simp: main_def body_def final_plot_def emit_def Let_def)
  qed
qed

theorem existing_checkpoint_without_resume_is_untouched_witness:
  "disk resumed_world (ckpt (resolve_ckpt default_args)) = Some saved_bundle \<and>
   \<not> resume_training default_args \<and>
   fst (main (example_collab 2) default_args resumed_world) = None \<and>
   disk (snd (main (example_collab 2) default_args resumed_world)) = disk resumed_world \<and>
   filter is_step (events (snd (main (example_collab 2) default_args resumed_world))) = [] \<and>
   filter is_save (events (snd (main (example_collab 2) default_args resumed_world))) = []"
  using existing_checkpoint_without_resume_is_untouched[of resumed_world default_args
          "example_collab 2"]
  by (simp add: main_def body_def startup_def resolve_ckpt_def default_args_def
        resumed_world_def emit_def final_plot_def Let_def)

subsection \<open>The epoch boundary\<close>

lemma epoch_end_result:
  "\<exists>acts. forward_hooks (snd (test_accuracy col (to_eval col (model v)))) (layer_activations v) = Inr acts \<and>
     epoch_end col a epoch v w =
     (let m = to_eval col (model v);
          acc = fst (test_accuracy col m);
          n = length (train_loader col);
          lg = logs_extend ''val_acc'' (linspace col (valid_acc v) acc n) (logs v);
          v1 = v\<lparr>model := m, valid_acc := acc, logs := lg, layer_activations := acts\<rparr>
      in if \<not> save_best a \<or> acc > best_acc v then
           let sd = \<lparr>ck_model = m, ck_optimizer = optimizer v, ck_epoch = epoch + 1,
                     ck_acc = acc, ck_logs = lg\<rparr>
           in (Inr (v1\<lparr>best_acc := acc\<rparr>),
               (emit [PrettyPlot lg (Some n) (Some (plot_loc a)), PrintSaving (ckpt a),
                      TorchSave (ckpt a) sd] w)
                 \<lparr>disk := (disk w)(ckpt a := Some sd)\<rparr>)
         else (Inr v1, w))"
proof -
  obtain acts where
    "forward_hooks (snd (test_accuracy col (to_eval col (model v)))) (layer_activations v) = Inr acts"
    using forward_hooks_total by blast
  then show ?thesis
    by (auto simp: epoch_end_def Let_def split: prod.splits)
qed

lemma epoch_end_save:
  assumes "epoch_end col a epoch v w = (Inr v', w')"
  shows "(if save_best a \<longrightarrow> best_acc v < fst (test_accuracy col (to_eval col (model v)))
          then (\<exists>sd. filter is_save (events w') = filter is_save (events w) @ [TorchSave (ckpt a) sd] \<and>
                  disk w' (ckpt a) = Some sd \<and> ck_epoch sd = epoch + 1 \<and>
                  ck_acc sd = fst (test_accuracy col (to_eval col (model v)))) \<and>
               best_acc v' = fst (test_accuracy col (to_eval col (model v)))
          else filter is_save (events w') = filter is_save (events w) \<and> disk w' = disk w \<and>
               best_acc v' = best_acc v)"
proof -
  from epoch_end_result[of col v a epoch w] obtain acts where
    e: "epoch_end col a epoch v w =
     (let m = to_eval col (model v);
          acc = fst (test_accuracy col m);
          n = length (train_loader col);
          lg = logs_extend ''val_acc'' (linspace col (valid_acc v) acc n) (logs v);
          v1 = v\<lparr>model := m, valid_acc := acc, logs := lg, layer_activations := acts\<rparr>
      in if \<not> save_best a \<or> acc > best_acc v then
           let sd = \<lparr>ck_model = m, ck_optimizer = optimizer v, ck_epoch = epoch + 1,
                     ck_acc = acc, ck_logs = lg\<rparr>
           in (Inr (v1\<lparr>best_acc := acc\<rparr>),
               (emit [PrettyPlot lg (Some n) (Some (plot_loc a)), PrintSaving (ckpt a),
                      TorchSave (ckpt a) sd] w)
                 \<lparr>disk := (disk w)(ckpt a := Some sd)\<rparr>)
         else (Inr v1, w))" by blast
  show ?thesis using assms unfolding e Let_def
    by (auto simp: emit_def split: if_splits)
qed

lemma epoch_end_best_acc_mono:
  assumes "epoch_end col a epoch v w = (Inr v', w')" and "save_best a"
  shows "best_acc v \<le> best_acc v'"
  using epoch_end_save[OF assms(1)] assms(2) by (auto split: if_splits)

lemma run_epoch_completes:
  assumes "run_epoch col a epoch v w = (Inr v', w')"
  shows "train_loader col = [] \<and>
         epoch_end col a epoch (v\<lparr>model := to_train col (model v)\<rparr>) w = (Inr v', w')"
proof -
  let ?v0 = "v\<lparr>model := to_train col (model v)\<rparr>"
  let ?sbs = "enumerate_from (epoch * int (length (train_loader col))) (train_loader col)"
  obtain r w1 where b: "batches_loop col a epoch ?sbs ?v0 w = (r, w1)"
    by (cases "batches_loop col a epoch ?sbs ?v0 w")
  with assms obtain v1 where r: "r = Inr v1"
    by (cases r) (auto simp: run_epoch_def Let_def)
  from batches_loop_completes[OF b[unfolded r]] have "?sbs = []" "v1 = ?v0" "w1 = w" by auto
  moreover from this have "train_loader col = []" by (simp add: enumerate_from_def)
  ultimately show ?thesis using assms b r by (simp add: run_epoch_def Let_def)
qed

lemma epochs_loop_best_acc_mono:
  assumes "epochs_loop col a es v w = (Inr v', w')" and "save_best a"
  shows "best_acc v \<le> best_acc v'"
  using assms
proof (induction es arbitrary: v w)
  case Nil
  then show ?case by simp
next
  case (Cons epoch es)
  obtain r w1 where e: "run_epoch col a epoch v w = (r, w1)" by (cases "run_epoch col a epoch v w")
  with Cons.prems obtain v1 where r: "r = Inr v1" by (cases r) auto
  from run_epoch_completes[OF e[unfolded r]]
  have "best_acc v \<le> best_acc v1"
    using epoch_end_best_acc_mono[of col a epoch "v\<lparr>model := to_train col (model v)\<rparr>" w v1 w1] Cons.prems(2)
    by simp
  moreover have "best_acc v1 \<le> best_acc v'"
    using Cons.IH[of v1 w1] Cons.prems e r by simp
  ultimately show ?case by simp
qed

text \<open>
  C5. The epoch boundary (lines 152-164) always completes. It writes the bundle exactly
  when \<open>save_best\<close> is off or the new validation accuracy is strictly above \<open>best_acc\<close>;
  when it does, the bundle and \<open>best_acc\<close> carry the new accuracy, and otherwise disk and
  \<open>best_acc\<close> are unchanged. With \<open>save_best\<close> on, \<open>best_acc\<close> never decreases over any
  number of completed epochs.
\<close>

theorem save_policy:
  "(\<exists>v' w'. epoch_end col a epoch v w = (Inr v', w') \<and>
      (if save_best a \<longrightarrow> best_acc v < fst (test_accuracy col (to_eval col (model v)))
       then (\<exists>sd. filter is_save (events w') = filter is_save (events w) @ [TorchSave (ckpt a) sd] \<and>
               disk w' (ckpt a) = Some sd \<and> ck_epoch sd = epoch + 1 \<and>
               ck_acc sd = fst (test_accuracy col (to_eval col (model v)))) \<and>
            best_acc v' = fst (test_accuracy col (to_eval col (model v)))
       else filter is_save (events w') = filter is_save (events w) \<and> disk w' = disk w \<and>
            best_acc v' = best_acc v)) \<and>
   (save_best a \<and> epochs_loop col a es v w = (Inr v'', w'') \<longrightarrow> best_acc v \<le> best_acc v'')"
proof -
  obtain v' w' where e: "epoch_end col a epoch v w = (Inr v', w')"
    using epoch_end_result[of col v a epoch w] by (auto simp: Let_def split: if_splits)
  show ?thesis
    using epoch_end_save[OF e] e epochs_loop_best_acc_mono[of col a es v w v'' w'']
    by blast
qed

theorem save_policy_witness:
  "save_best (resolve_ckpt (resume_args\<lparr>save_best := True\<rparr>)) \<and>
   best_acc resumed_vars = 1 / 2 \<and>
   fst (test_accuracy (example_collab 2) (to_eval (example_collab 2) (model resumed_vars))) = 3 / 4 \<and>
   map_sum id best_acc
     (fst (epoch_end (example_collab 2) (resolve_ckpt (resume_args\<lparr>save_best := True\<rparr>)) 1
             resumed_vars resumed_world)) = Inr (3 / 4) \<and>
   map (\<lambda>ev. case ev of TorchSave p sd \<Rightarrow> (p, ck_epoch sd, ck_acc sd) | _ \<Rightarrow> ([], 0, 0))
     (filter is_save (events (snd
        (epoch_end (example_collab 2) (resolve_ckpt (resume_args\<lparr>save_best := True\<rparr>)) 1
           resumed_vars resumed_world))))
     = [(''models/model_transfer_CIFAR10.ckpt'', 2, 3 / 4)] \<and>
   map_sum id best_acc
     (fst (epochs_loop (example_collab 0) (resolve_ckpt (resume_args\<lparr>save_best := True\<rparr>))
             [1, 2] resumed_vars resumed_world)) = Inr (3 / 4)"
  using save_policy[of "example_collab 2" "resolve_ckpt (resume_args\<lparr>save_best := True\<rparr>)" 1
          resumed_vars resumed_world "[]" resumed_vars resumed_world]
        save_policy[of "example_collab 0" "resolve_ckpt (resume_args\<lparr>save_best := True\<rparr>)" 1
          resumed_vars resumed_world "[1, 2]"
          "projr (fst (epochs_loop (example_collab 0)
             (resolve_ckpt (resume_args\<lparr>save_best := True\<rparr>)) [1, 2] resumed_vars resumed_world))"
          "snd (epochs_loop (example_collab 0)
             (resolve_ckpt (resume_args\<lparr>save_best := True\<rparr>)) [1, 2] resumed_vars resumed_world)"]
  by (simp add: epoch_end_def run_epoch_def enumerate_from_def example_defs hook_def
        emit_def plot_loc_def Let_def)

subsection \<open>After the last epoch\<close>

lemma report_best_raises:
  assumes "save_best a"
  shows "\<exists>e w'. report_best a v w = (Inl e, w') \<and>
           filter is_report (events w') = filter is_report (events w) \<and>
           filter is_final_plot (events w') = filter is_final_plot (events w)"
  using assms by (auto simp: report_best_def emit_def Let_def split: option.splits)

lemma loop_event_quiet:
  "list_all loop_event xs \<Longrightarrow> filter is_report xs = [] \<and> filter is_final_plot xs = []"
proof (induction xs)
  case Nil
  then show ?case by simp
next
  case (Cons ev xs)
  then have "loop_event ev" by simp
  then have "\<not> is_report ev \<and> \<not> is_final_plot ev"
    by (cases ev rule: loop_event.cases) auto
  with Cons show ?case by simp
qed

lemma train_step_events:
  assumes "train_step col a epoch sb v w = (r, w')"
  shows "\<exists>xs. events w' = events w @ xs \<and> list_all loop_event xs"
  using assms unfolding train_step_def Let_def emit_def
  by (auto split: prod.splits sum.splits option.splits if_splits)

lemma batches_loop_events:
  assumes "batches_loop col a epoch sbs v w = (r, w')"
  shows "\<exists>xs. events w' = events w @ xs \<and> list_all loop_event xs"
  using assms
proof (induction sbs arbitrary: v w)
  case Nil
  then show ?case by simp
next
  case (Cons sb sbs)
  obtain r1 w1 where t: "train_step col a epoch sb v w = (r1, w1)"
    by (cases "train_step col a epoch sb v w")
  from train_step_events[OF t] obtain xs where xs: "events w1 = events w @ xs" "list_all loop_event xs"
    by blast
  show ?case
  proof (cases r1)
    case (Inl e)
    with Cons.prems t have "w' = w1" by simp
    with xs show ?thesis by blast
  next
    case (Inr v1)
    with Cons.prems t have "batches_loop col a epoch sbs v1 w1 = (r, w')" by simp
    from Cons.IH[OF this] obtain ys where "events w' = events w1 @ ys" "list_all loop_event ys"
      by blast
    with xs have "events w' = events w @ (xs @ ys) \<and> list_all loop_event (xs @ ys)" by simp
    then show ?thesis by blast
  qed
qed

lemma epoch_end_events:
  assumes "epoch_end col a epoch v w = (r, w')"
  shows "\<exists>xs. events w' = events w @ xs \<and> list_all loop_event xs"
proof -
  obtain acts where
    "forward_hooks (snd (test_accuracy col (to_eval col (model v)))) (layer_activations v) = Inr acts"
    using forward_hooks_total by blast
  with assms show ?thesis
    by (auto simp: epoch_end_def Let_def emit_def split: prod.splits if_splits)
qed

lemma run_epoch_events:
  assumes "run_epoch col a epoch v w = (r, w')"
  shows "\<exists>xs. events w' = events w @ xs \<and> list_all loop_event xs"
proof -
  let ?v0 = "v\<lparr>model := to_train col (model v)\<rparr>"
  let ?sbs = "enumerate_from (epoch * int (length (train_loader col))) (train_loader col)"
  obtain r1 w1 where b: "batches_loop col a epoch ?sbs ?v0 w = (r1, w1)"
    by (cases "batches_loop col a epoch ?sbs ?v0 w")
  from batches_loop_events[OF b] obtain xs where xs: "events w1 = events w @ xs" "list_all loop_event xs"
    by blast
  show ?thesis
  proof (cases r1)
    case (Inl e)
    with assms b have "w' = w1" by (simp add: run_epoch_def Let_def)
    with xs show ?thesis by blast
  next
    case (Inr v1)
    with assms b have "epoch_end col a epoch v1 w1 = (r, w')" by (simp add: run_epoch_def Let_def)
    from epoch_end_events[OF this] obtain ys where "events w' = events w1 @ ys" "list_all loop_event ys"
      by blast
    with xs have "events w' = events w @ (xs @ ys) \<and> list_all loop_event (xs @ ys)" by simp
    then show ?thesis by blast
  qed
qed

lemma epochs_loop_events:
  assumes "epochs_loop col a es v w = (r, w')"
  shows "\<exists>xs. events w' = events w @ xs \<and> list_all loop_event xs"
  using assms
proof (induction es arbitrary: v w)
  case Nil
  then show ?case by simp
next
  case (Cons epoch es)
  obtain r1 w1 where t: "run_epoch col a epoch v w = (r1, w1)"
    by (cases "run_epoch col a epoch v w")
  from run_epoch_events[OF t] obtain xs where xs: "events w1 = events w @ xs" "list_all loop_event xs"
    by blast
  show ?case
  proof (cases r1)
    case (Inl e)
    with Cons.prems t have "w' = w1" by simp
    with xs show ?thesis by blast
  next
    case (Inr v1)
    with Cons.prems t have "epochs_loop col a es v1 w1 = (r, w')" by simp
    from Cons.IH[OF this] obtain ys where "events w' = events w1 @ ys" "list_all loop_event ys"
      by blast
    with xs have "events w' = events w @ (xs @ ys) \<and> list_all loop_event (xs @ ys)" by simp
    then show ?thesis by blast
  qed
qed

text \<open>
  C9 (what the code does). The claim says that with best-only saving the program reloads
  the best checkpoint and reports its stored epoch count and accuracy, and that every
  run renders a final plot. In the code line 167 keeps only the \<open>model\<close> entry of the
  bundle and line 168 subscripts that network object with \<open>epoch\<close>: every run with
  \<open>save_best\<close> that enters the training block ends in an exception, prints no report and
  never reaches the final plot.
\<close>

theorem best_report_raises:
  assumes "save_best a" and "disk w (ckpt (resolve_ckpt a)) = None \<or> resume_training a"
  shows "fst (main col a w) \<noteq> None \<and>
         filter is_report (events (snd (main col a w))) = filter is_report (events w) \<and>
         filter is_final_plot (events (snd (main col a w))) = filter is_final_plot (events w)"
proof -
  let ?a = "resolve_ckpt a"
  let ?w0 = "emit [PrintArgs (vars_items ?a)] w"
  obtain r w1 where s: "startup col ?a ?w0 = (r, w1)" by (cases "startup col ?a ?w0")
  from startup_world[OF s] have
    d: "disk w1 = disk w" and
    rp: "filter is_report (events w1) = filter is_report (events w)" and
    fp: "filter is_final_plot (events w1) = filter is_final_plot (events w)"
    by (simp_all add: emit_def)
  show ?thesis
  proof (cases r)
    case (Inl e)
    then show ?thesis using s rp fp by (simp add: main_def body_def Let_def)
  next
    case (Inr v)
    let ?w2 = "emit [PrintTraining (num_params col (model v))] w1"
    let ?es = "[init_epoch v..init_epoch v + num_epochs ?a - 1]"
    obtain r3 w3 where l: "epochs_loop col ?a ?es v ?w2 = (r3, w3)"
      by (cases "epochs_loop col ?a ?es v ?w2")
    from epochs_loop_events[OF l] obtain xs where
      xs: "events w3 = events ?w2 @ xs" "list_all loop_event xs" by blast
    from loop_event_quiet[OF xs(2)] xs(1) rp fp have
      rp3: "filter is_report (events w3) = filter is_report (events w)" and
      fp3: "filter is_final_plot (events w3) = filter is_final_plot (events w)"
      by (simp_all add: emit_def)
    have m: "main col a w =
       (case r3 of Inl e \<Rightarrow> (Some e, w3)
        | Inr v' \<Rightarrow>
           (case report_best ?a v' w3 of
              (Inl e, w4) \<Rightarrow> (Some e, w4)
            | (Inr u, w4) \<Rightarrow> (None, final_plot v' w4)))"
      using s Inr l d assms(2) by (auto simp: main_def body_def Let_def split: sum.splits)
    show ?thesis
    proof (cases r3)
      case (Inl e)
      then show ?thesis using m rp3 fp3 by simp
    next
      case r3: (Inr v')
      from report_best_raises[of ?a v' w3] assms(1) obtain e w4 where
        "report_best ?a v' w3 = (Inl e, w4)"
        "filter is_report (events w4) = filter is_report (events w3)"
        "filter is_final_plot (events w4) = filter is_final_plot (events w3)"
        by auto
      then show ?thesis using m r3 rp3 fp3 by simp
    qed
  qed
qed

theorem best_report_raises_witness:
  "save_best (resume_args\<lparr>save_best := True, num_epochs := 0\<rparr>) \<and>
   resume_training (resume_args\<lparr>save_best := True, num_epochs := 0\<rparr>) \<and>
   fst (main (example_collab 2) (resume_args\<lparr>save_best := True, num_epochs := 0\<rparr>) resumed_world)
     = Some TypeError \<and>
   filter is_report (events (snd
     (main (example_collab 2) (resume_args\<lparr>save_best := True, num_epochs := 0\<rparr>) resumed_world))) = [] \<and>
   filter is_final_plot (events (snd
     (main (example_collab 2) (resume_args\<lparr>save_best := True, num_epochs := 0\<rparr>) resumed_world))) = []"
  using best_report_raises[of "resume_args\<lparr>save_best := True, num_epochs := 0\<rparr>" resumed_world "example_collab 2"]
  by (simp add: main_def body_def startup_def report_best_def example_defs emit_def Let_def)

subsection \<open>Epochs of a training run\<close>






lemma resolve_ckpt_num_epochs [simp]: "num_epochs (resolve_ckpt a) = num_epochs a"
  by (simp add: resolve_ckpt_def)



subsection \<open>The \<open>cuda\<close> flag\<close>

text \<open>No function of the script reads what the world has recorded.\<close>

lemma behind_simps [simp]:
  "disk (behind evs w) = disk w"
  "events (behind evs w) = evs @ events w"
  "emit xs (behind evs w) = behind evs (emit xs w)"
  "(behind evs w)\<lparr>disk := d\<rparr> = behind evs (w\<lparr>disk := d\<rparr>)"
  by (simp_all add: behind_def emit_def)

lemma startup_behind:
  "startup col a (behind evs w) = map_prod id (behind evs) (startup col a w)"
  by (simp add: startup_def fresh_start_def split: option.splits)

lemma train_step_behind:
  "train_step col a epoch sb v (behind evs w) = map_prod id (behind evs) (train_step col a epoch sb v w)"
  unfolding train_step_def Let_def
  by (simp split: prod.splits sum.splits option.splits)

lemma batches_loop_behind:
  "batches_loop col a epoch sbs v (behind evs w) =
     map_prod id (behind evs) (batches_loop col a epoch sbs v w)"
proof (induction sbs arbitrary: v w)
  case Nil
  then show ?case by simp
next
  case (Cons sb sbs)
  show ?case
    by (cases "train_step col a epoch sb v w")
       (auto simp: train_step_behind Cons.IH split: sum.splits)
qed

lemma epoch_end_behind:
  "epoch_end col a epoch v (behind evs w) = map_prod id (behind evs) (epoch_end col a epoch v w)"
  unfolding epoch_end_def Let_def
  by (simp split: prod.splits sum.splits)

lemma run_epoch_behind:
  "run_epoch col a epoch v (behind evs w) = map_prod id (behind evs) (run_epoch col a epoch v w)"
  unfolding run_epoch_def Let_def
  by (cases "batches_loop col a epoch
        (enumerate_from (epoch * int (length (train_loader col))) (train_loader col))
        (v\<lparr>model := to_train col (model v)\<rparr>) w")
     (auto simp: batches_loop_behind epoch_end_behind split: sum.splits)

lemma epochs_loop_behind:
  "epochs_loop col a es v (behind evs w) = map_prod id (behind evs) (epochs_loop col a es v w)"
proof (induction es arbitrary: v w)
  case Nil
  then show ?case by simp
next
  case (Cons epoch es)
  show ?case
    by (cases "run_epoch col a epoch v w")
       (auto simp: run_epoch_behind Cons.IH split: sum.splits)
qed

lemma report_best_behind:
  "report_best a v (behind evs w) = map_prod id (behind evs) (report_best a v w)"
  by (simp add: report_best_def Let_def split: option.splits)

lemma final_plot_behind: "final_plot v (behind evs w) = behind evs (final_plot v w)"
  by (simp add: final_plot_def)

lemma body_behind: "body col a (behind evs w) = map_prod id (behind evs) (body col a w)"
proof (cases "startup col a w")
  case (Pair r w1)
  show ?thesis
  proof (cases r)
    case (Inl e)
    with Pair show ?thesis by (simp add: body_def startup_behind)
  next
    case (Inr v)
    let ?w2 = "emit [PrintTraining (num_params col (model v))] w1"
    let ?es = "[init_epoch v..init_epoch v + num_epochs a - 1]"
    obtain r3 w3 where l: "epochs_loop col a ?es v ?w2 = (r3, w3)"
      by (cases "epochs_loop col a ?es v ?w2")
    show ?thesis
    proof (cases r3)
      case (Inl e)
      with Pair Inr l show ?thesis
        by (simp add: body_def startup_behind epochs_loop_behind final_plot_behind)
    next
      case r3: (Inr v')
      obtain r4 w4 where rb: "report_best a v' w3 = (r4, w4)" by (cases "report_best a v' w3")
      with Pair Inr l r3 show ?thesis
        by (cases r4)
           (simp_all add: body_def startup_behind epochs_loop_behind final_plot_behind
              report_best_behind)
    qed
  qed
qed

lemma resolve_ckpt_cuda: "resolve_ckpt (a\<lparr>cuda := c\<rparr>) = (resolve_ckpt a)\<lparr>cuda := c\<rparr>"
  by (simp add: resolve_ckpt_def)

lemmas branch_congs = if_cong option.case_cong sum.case_cong prod.case_cong

lemma fresh_start_cuda: "fresh_start col (a\<lparr>cuda := c\<rparr>) w = fresh_start col a w"
  by (simp add: fresh_start_def select_network_def device_def cong: branch_congs)

lemma startup_cuda: "startup col (a\<lparr>cuda := c\<rparr>) w = startup col a w"
  by (simp add: startup_def fresh_start_cuda device_def cong: branch_congs)

lemma step_loss_cuda:
  "step_loss col (a\<lparr>cuda := c\<rparr>) logits xy acc loss_bn = step_loss col a logits xy acc loss_bn"
  by (simp add: step_loss_def cong: branch_congs)

lemma train_step_cuda: "train_step col (a\<lparr>cuda := c\<rparr>) epoch sb v w = train_step col a epoch sb v w"
  by (simp add: train_step_def step_loss_cuda device_def Let_def cong: branch_congs)

lemma batches_loop_cuda:
  "batches_loop col (a\<lparr>cuda := c\<rparr>) epoch sbs v w = batches_loop col a epoch sbs v w"
  by (induction sbs arbitrary: v w) (simp_all add: train_step_cuda cong: branch_congs)

lemma epoch_end_cuda: "epoch_end col (a\<lparr>cuda := c\<rparr>) epoch v w = epoch_end col a epoch v w"
  by (simp add: epoch_end_def plot_loc_def Let_def cong: branch_congs)

lemma run_epoch_cuda: "run_epoch col (a\<lparr>cuda := c\<rparr>) epoch v w = run_epoch col a epoch v w"
  by (simp add: run_epoch_def batches_loop_cuda epoch_end_cuda cong: branch_congs)

lemma epochs_loop_cuda: "epochs_loop col (a\<lparr>cuda := c\<rparr>) es v w = epochs_loop col a es v w"
  by (induction es arbitrary: v w) (simp_all add: run_epoch_cuda cong: branch_congs)

lemma report_best_cuda: "report_best (a\<lparr>cuda := c\<rparr>) v w = report_best a v w"
  by (simp add: report_best_def device_def Let_def cong: branch_congs)

lemma body_cuda: "body col (a\<lparr>cuda := c\<rparr>) w = body col a w"
  by (simp add: body_def startup_cuda epochs_loop_cuda report_best_cuda cong: branch_congs)

lemma vars_items_cuda:
  "vars_items (a\<lparr>cuda := c\<rparr>) = (vars_items a)[4 := (''cuda'', ArgBool c)]"
  by (simp add: vars_items_def)

lemma main_echo_then_rest:
  "main col a w =
     map_prod id (behind (events w @ [PrintArgs (vars_items (resolve_ckpt a))]))
       (body col (resolve_ckpt a) (w\<lparr>events := []\<rparr>))"
proof -
  have "emit [PrintArgs (vars_items (resolve_ckpt a))] w =
        behind (events w @ [PrintArgs (vars_items (resolve_ckpt a))]) (w\<lparr>events := []\<rparr>)"
    by (simp add: emit_def behind_def)
  then show ?thesis by (simp add: main_def Let_def body_behind)
qed

text \<open>
  C10, as the claim states it, fails at line 41, which prints the flag with the other
  arguments: two runs that differ only in \<^verbatim>\<open>--cuda\<close> print different lines.
\<close>

theorem cuda_flag_echo_counterexample:
  "events (snd (main (example_collab 2) (default_args\<lparr>cuda := True\<rparr>) resumed_world)) \<noteq>
   events (snd (main (example_collab 2) (default_args\<lparr>cuda := False\<rparr>) resumed_world))"
  by (simp add: main_def body_def startup_def example_defs vars_items_def emit_def final_plot_def Let_def)

text \<open>
  C10, amended. The device is the constant string \<open>cuda\<close>. Two runs that differ only in
  \<^verbatim>\<open>--cuda\<close> end the same way, leave the same disk and, after the echo of the arguments
  (which differs in the entry \<open>cuda\<close> alone), do the same things in the same order, device
  placements included.
\<close>

theorem cuda_flag_only_echoed:
  "device (a\<lparr>cuda := c\<rparr>) = ''cuda'' \<and>
   fst (main col (a\<lparr>cuda := c\<rparr>) w) = fst (main col a w) \<and>
   disk (snd (main col (a\<lparr>cuda := c\<rparr>) w)) = disk (snd (main col a w)) \<and>
   (\<exists>rest.
      events (snd (main col (a\<lparr>cuda := c\<rparr>) w)) =
        events w @ PrintArgs ((vars_items (resolve_ckpt a))[4 := (''cuda'', ArgBool c)]) # rest \<and>
      events (snd (main col a w)) =
        events w @ PrintArgs (vars_items (resolve_ckpt a)) # rest)"
proof -
  let ?run = "body col (resolve_ckpt a) (w\<lparr>events := []\<rparr>)"
  have 1: "main col (a\<lparr>cuda := c\<rparr>) w =
      map_prod id (behind (events w @ [PrintArgs ((vars_items (resolve_ckpt a))[4 := (''cuda'', ArgBool c)])])) ?run"
    by (simp add: main_echo_then_rest resolve_ckpt_cuda body_cuda vars_items_cuda)
  have 2: "main col a w =
      map_prod id (behind (events w @ [PrintArgs (vars_items (resolve_ckpt a))])) ?run"
    by (rule main_echo_then_rest)
  show ?thesis unfolding 1 2
    by (cases ?run) (simp add: device_def)
qed

theorem cuda_flag_only_echoed_witness:
  "fst (main (example_collab 2) (default_args\<lparr>cuda := True\<rparr>) resumed_world) = None \<and>
   fst (main (example_collab 2) default_args resumed_world) = None \<and>
   tl (events (snd (main (example_collab 2) (default_args\<lparr>cuda := True\<rparr>) resumed_world)))
     = tl (events (snd (main (example_collab 2) default_args resumed_world))) \<and>
   map (\<lambda>ev. case ev of TorchLoad p dev \<Rightarrow> dev | ModelTo dev \<Rightarrow> dev | BatchTo k dev \<Rightarrow> dev | _ \<Rightarrow> [])
     (tl (events (snd (main (example_collab 2) (default_args\<lparr>cuda := True\<rparr>) resumed_world))))
     = [''cuda'', [], []]"
  using cuda_flag_only_echoed[where a = default_args and c = True and col = "example_collab 2" and w = resumed_world]
  by (simp add: main_def body_def startup_def example_defs vars_items_def emit_def final_plot_def
        device_def Let_def)

end
